theory Spec2Isabelle
  imports Main
begin

section \<open>Python values\<close>

text \<open>
  A Python \<open>str\<close> is a sequence of Unicode code points, so a string is a list of
  code points here; \<open>ascii\<close> turns an ASCII literal of the source into one.
  Dictionary keys are the literals of the source and stay HOL strings.
\<close>

type_synonym pystr = "nat list"

definition ascii :: "string \<Rightarrow> pystr" where
  "ascii s = map of_char s"

text \<open>
  The values the shared dictionary \<open>state_data\<close> can hold: a string, \<open>None\<close>, or an
  \<open>AgentGenerator\<close> object. An object is known by the order of its creation (its
  identity) and carries the argument its constructor was given.
\<close>

datatype pyval = Str pystr | NoneVal | Agent nat pyval

text \<open>The exceptions the two source files can raise.\<close>

datatype error =
  KeyError string | AttributeError string | UnicodeEncodeError | HTTPException nat string

subsection \<open>\<open>str.strip()\<close>\<close>

text \<open>
  The code points for which Python's \<open>str.isspace\<close> holds, which are the ones
  \<open>str.strip()\<close> without argument removes at both ends.
\<close>

definition whitespace :: "nat list" where
  "whitespace =
     [0x09, 0x0A, 0x0B, 0x0C, 0x0D, 0x1C, 0x1D, 0x1E, 0x1F, 0x20, 0x85, 0xA0, 0x1680,
      0x2000, 0x2001, 0x2002, 0x2003, 0x2004, 0x2005, 0x2006, 0x2007, 0x2008, 0x2009,
      0x200A, 0x2028, 0x2029, 0x202F, 0x205F, 0x3000]"

definition isspace :: "nat \<Rightarrow> bool" where
  "isspace c = (c \<in> set whitespace)"

definition strip :: "pystr \<Rightarrow> pystr" where
  "strip s = rev (dropWhile isspace (rev (dropWhile isspace s)))"

section \<open>tools_generator/agent.py\<close>

text \<open>
  The module keeps its configuration in the global dictionary \<open>state_data\<close>. The
  functions below take the world they run in and return the world they leave: the
  dictionary, the lines printed, the code points the encoding of \<open>sys.stdout\<close> has
  beyond ASCII, the number of \<open>AgentGenerator\<close> objects created so far, and the
  generated tool module the agent writes to. A result is the exception raised (\<open>Inl\<close>)
  or the value returned (\<open>Inr\<close>), paired with that world.
\<close>

record world =
  state_data :: "string \<rightharpoonup> pyval"
  stdout :: "pystr list"
  stdout_encodes :: "nat \<Rightarrow> bool"
  created :: nat
  tool_module :: "pystr list"

text \<open>
  \<open>print\<close> encodes the whole line before it writes any of it, and raises
  \<open>UnicodeEncodeError\<close> when the encoding of \<open>sys.stdout\<close> lacks one of its code
  points. Every encoding \<open>sys.stdout\<close> can have writes the code points below 128.
\<close>

definition stdout_writes :: "world \<Rightarrow> nat \<Rightarrow> bool" where
  "stdout_writes w c = (c < 128 \<or> stdout_encodes w c)"

definition print :: "pystr \<Rightarrow> world \<Rightarrow> (error + unit) \<times> world" where
  "print text w =
     (if list_all (stdout_writes w) text
      then (Inr (), w\<lparr>stdout := stdout w @ [text]\<rparr>)
      else (Inl UnicodeEncodeError, w))"

text \<open>
  UTF-8 with strict error handling, the usual encoding of \<open>sys.stdout\<close>: it writes
  every code point but the surrogates.
\<close>

definition utf_8 :: "nat \<Rightarrow> bool" where
  "utf_8 c = (c < 0xD800 \<or> (0xDFFF < c \<and> c < 0x110000))"

definition initial_state_data :: "string \<rightharpoonup> pyval" where
  "initial_state_data =
     [''org_name'' \<mapsto> Str [], ''base_url'' \<mapsto> Str [], ''swagger_json'' \<mapsto> Str []]"

definition initial_world :: world where
  "initial_world =
     \<lparr>state_data = initial_state_data, stdout = [], stdout_encodes = utf_8, created = 0,
      tool_module = []\<rparr>"

text \<open>
  Each setter writes its entry first and prints afterwards, with no handler around the
  \<open>print\<close>: when the \<open>print\<close> raises, the entry is already written.
\<close>

definition set_org_name :: "pystr \<Rightarrow> world \<Rightarrow> (error + unit) \<times> world" where
  "set_org_name org_name w =
     print (ascii ''Organization name set to: '' @ org_name)
       (w\<lparr>state_data := (state_data w)(''org_name'' \<mapsto> Str org_name)\<rparr>)"

definition set_base_url :: "pystr \<Rightarrow> world \<Rightarrow> (error + unit) \<times> world" where
  "set_base_url base_url w =
     print (ascii ''Base URL set to: '' @ base_url)
       (w\<lparr>state_data := (state_data w)(''base_url'' \<mapsto> Str base_url)\<rparr>)"

definition set_swagger_json :: "pystr \<Rightarrow> world \<Rightarrow> (error + unit) \<times> world" where
  "set_swagger_json swagger_json w =
     print (ascii ''Swagger JSON specification set.'')
       (w\<lparr>state_data := (state_data w)(''swagger_json'' \<mapsto> Str swagger_json)\<rparr>)"

subsection \<open>The class \<open>AgentGenerator\<close>\<close>

text \<open>
  Modelled from the spec: the constructor of the class \<open>AgentGenerator\<close> of
  \<open>tools_generator/generator/agent_generator.py\<close>, which \<open>agent.py\<close> imports and
  which is not among the sources. By the spec the agent handle is an opaque value that
  owns the link to the generated tool module, and creating it writes nothing. So the
  constructor returns a new object holding its argument, counts it, and raises nothing.
\<close>

definition AgentGenerator :: "pyval \<Rightarrow> world \<Rightarrow> (error + pyval) \<times> world" where
  "AgentGenerator org_name w =
     (Inr (Agent (created w) org_name), w\<lparr>created := Suc (created w)\<rparr>)"

text \<open>
  Modelled from the spec: the method \<open>write_to_tool\<close> of that class. By the spec the
  module is an ordered append-only sequence of fragments that only the writer's
  \<open>append\<close> extends, each fragment put after the ones already there. The manifest of
  the source is the \<open>tool_list\<close> the generated code itself defines, so it is part of
  the fragments.
\<close>

definition write_to_tool :: "pyval \<Rightarrow> pystr \<Rightarrow> world \<Rightarrow> (error + unit) \<times> world" where
  "write_to_tool self code w = (Inr (), w\<lparr>tool_module := tool_module w @ [code]\<rparr>)"

subsection \<open>Validation, agent creation and the writer\<close>

text \<open>
  \<open>state_data["org_name"]\<close> raises \<open>KeyError\<close> on a missing key; the constructor's
  exception, if any, leaves \<open>state_data\<close> as it was.
\<close>

definition create_agent :: "world \<Rightarrow> (error + pyval) \<times> world" where
  "create_agent w =
     (case state_data w ''org_name'' of
        None \<Rightarrow> (Inl (KeyError ''org_name''), w)
      | Some org_name \<Rightarrow>
          (case AgentGenerator org_name w of
             (Inl e, w') \<Rightarrow> (Inl e, w')
           | (Inr ag, w') \<Rightarrow> (Inr ag, w'\<lparr>state_data := (state_data w')(''agent'' \<mapsto> ag)\<rparr>)))"

text \<open>
  The local \<open>is_valid\<close> of \<open>validate_state\<close>: \<open>state_data.get(key)\<close> is \<open>None\<close> for a
  missing key, which is not a \<open>str\<close>, and \<open>and\<close> then skips the second operand.
\<close>

definition is_valid :: "world \<Rightarrow> bool" where
  "is_valid w =
     list_all
       (\<lambda>key. case state_data w key of Some (Str s) \<Rightarrow> strip s \<noteq> [] | _ \<Rightarrow> False)
       [''org_name'', ''base_url'', ''swagger_json'']"

text \<open>
  When \<open>is_valid\<close> holds the function calls \<open>create_agent\<close>; the call that would write
  to the tool is commented out in the source, and reading the global
  \<open>tool_generation_agent\<close> has no effect.
\<close>

definition validate_state :: "world \<Rightarrow> (error + bool) \<times> world" where
  "validate_state w =
     (if is_valid w then
        (case create_agent w of
           (Inl e, w') \<Rightarrow> (Inl e, w')
         | (Inr agent, w') \<Rightarrow> (Inr (is_valid w), w'))
      else (Inr (is_valid w), w))"

text \<open>
  \<open>state_data["agent"].write_to_tool(code)\<close>: the subscript raises \<open>KeyError\<close> when
  no agent is bound, and a value that is no \<open>AgentGenerator\<close> has no such method.
\<close>

definition write_code_to_tool :: "pystr \<Rightarrow> world \<Rightarrow> (error + unit) \<times> world" where
  "write_code_to_tool code w =
     (case state_data w ''agent'' of
        None \<Rightarrow> (Inl (KeyError ''agent''), w)
      | Some (Agent i a) \<Rightarrow> write_to_tool (Agent i a) code w
      | Some _ \<Rightarrow> (Inl (AttributeError ''write_to_tool''), w))"

section \<open>gcp/server.py\<close>

text \<open>
  The request and response models and the dictionary stored for a payment. \<open>amount\<close>
  is a float the handlers only pass on, so its type is left open. A stored payment
  always has its five keys, so \<open>not payment\<close> holds for it only when the look-up gave
  \<open>None\<close>.
\<close>

record 'f PaymentInitiationRequest =
  debtor_account :: pystr
  creditor_account :: pystr
  amount :: 'f
  currency :: pystr
  reference :: "pystr option"

record PaymentInitiationResponse =
  payment_id :: pystr
  status :: pystr
  created_at :: pystr

record 'f PaymentStatusResponse =
  payment_id :: pystr
  status :: pystr
  processed_at :: "pystr option"
  amount :: 'f
  currency :: pystr
  reference :: "pystr option"

record 'f payment =
  status :: pystr
  amount :: 'f
  currency :: pystr
  reference :: "pystr option"
  created_at :: pystr

type_synonym 'f payments_store = "pystr \<rightharpoonup> 'f payment"

text \<open>
  \<open>str(uuid4())\<close> and \<open>datetime.utcnow().isoformat()\<close> are read from outside the
  program: the values they take in a call are arguments here. The response reads
  \<open>created_at\<close> back from the store, under the key written the line before.
\<close>

definition initiate_payment ::
  "'f PaymentInitiationRequest \<Rightarrow> pystr \<Rightarrow> pystr \<Rightarrow> 'f payments_store \<Rightarrow>
   (error + PaymentInitiationResponse) \<times> 'f payments_store" where
  "initiate_payment request uuid4 utcnow payments_store =
     (let payment_id = uuid4;
          payments_store' = payments_store(payment_id \<mapsto>
            \<lparr>payment.status = ascii ''PENDING'',
             amount = PaymentInitiationRequest.amount request,
             currency = PaymentInitiationRequest.currency request,
             reference = PaymentInitiationRequest.reference request,
             created_at = utcnow\<rparr>)
      in case payments_store' payment_id of
           None \<Rightarrow> (Inl (KeyError ''payment_id''), payments_store')
         | Some p \<Rightarrow>
             (Inr \<lparr>PaymentInitiationResponse.payment_id = payment_id,
                   status = ascii ''PENDING'',
                   created_at = payment.created_at p\<rparr>,
              payments_store'))"

definition get_payment_status ::
  "pystr \<Rightarrow> pystr \<Rightarrow> 'f payments_store \<Rightarrow>
   (error + 'f PaymentStatusResponse) \<times> 'f payments_store" where
  "get_payment_status = (\<lambda>payment_id utcnow payments_store.
      case payments_store payment_id of
        None \<Rightarrow> (Inl (HTTPException 404 ''Payment not found''), payments_store)
      | Some p \<Rightarrow>
          (Inr \<lparr>PaymentStatusResponse.payment_id = payment_id,
                status = payment.status p,
                processed_at =
                  (if payment.status p = ascii ''COMPLETED'' then Some utcnow else None),
                amount = payment.amount p,
                currency = payment.currency p,
                reference = payment.reference p\<rparr>,
           payments_store))"

section \<open>The condition of the spec and the example configurations\<close>

text \<open>
  The spec's condition on one field of the configuration: it is a string that is not
  empty once leading and trailing whitespace is trimmed, which is a string with a
  character that is no whitespace.
\<close>

definition field_nonempty_after_trim :: "pyval option \<Rightarrow> bool" where
  "field_nonempty_after_trim v =
     (case v of Some (Str s) \<Rightarrow> list_ex (\<lambda>c. \<not> isspace c) s | _ \<Rightarrow> False)"

text \<open>
  Three configurations reached from the initial one by the setters: all three fields
  set, the specification left empty, and the organisation name alone. A fourth has lost
  its \<open>org_name\<close> entry.
\<close>

definition acme_world :: world where
  "acme_world =
     snd (set_swagger_json (ascii ''{}'')
       (snd (set_base_url (ascii ''https://api.acme.com'')
         (snd (set_org_name (ascii ''Acme'') initial_world)))))"

definition no_swagger_world :: world where
  "no_swagger_world =
     snd (set_base_url (ascii ''https://api.acme.com'')
       (snd (set_org_name (ascii ''Acme'') initial_world)))"

definition org_only_world :: world where
  "org_only_world = snd (set_org_name (ascii ''Acme'') initial_world)"

definition no_org_world :: world where
  "no_org_world = initial_world\<lparr>state_data := Map.empty\<rparr>"

section \<open>Trimming\<close>

lemma strip_eq_Nil_iff: "strip s = [] \<longleftrightarrow> list_all isspace s"
proof (cases "dropWhile isspace s = []")
  case True
  then show ?thesis
    by (simp add: strip_def list_all_iff del: dropWhile_eq_Nil_conv) simp
next
  case False
  then have "hd (dropWhile isspace s) \<in> set (dropWhile isspace s)"
    and "\<not> isspace (hd (dropWhile isspace s))"
    by (simp_all add: hd_dropWhile del: dropWhile_eq_Nil_conv)
  then have "strip s \<noteq> []"
    by (auto simp add: strip_def)
  with False show ?thesis
    by (simp add: list_all_iff)
qed

lemma strip_nonempty_iff: "strip s \<noteq> [] \<longleftrightarrow> list_ex (\<lambda>c. \<not> isspace c) s"
  by (simp add: strip_eq_Nil_iff list_all_iff list_ex_iff)

text \<open>
  \<open>strip\<close> cuts a run of whitespace off each end and nothing else: what it returns
  neither starts nor ends with whitespace.
\<close>

lemma strip_decomposition:
  "s = takeWhile isspace s @ strip s @ rev (takeWhile isspace (rev (dropWhile isspace s)))"
proof -
  let ?d = "dropWhile isspace s"
  have "?d = strip s @ rev (takeWhile isspace (rev ?d))"
    using takeWhile_dropWhile_id[of isspace "rev ?d"]
    by (metis rev_append rev_rev_ident strip_def)
  moreover have "s = takeWhile isspace s @ ?d"
    by simp
  ultimately show ?thesis by metis
qed

lemma strip_ends:
  "strip s \<noteq> [] \<Longrightarrow> \<not> isspace (hd (strip s)) \<and> \<not> isspace (last (strip s))"
proof -
  assume n: "strip s \<noteq> []"
  let ?d = "dropWhile isspace s"
  let ?e = "dropWhile isspace (rev ?d)"
  from n have e: "?e \<noteq> []" by (simp add: strip_def del: dropWhile_eq_Nil_conv)
  then have d: "?d \<noteq> []" by (metis dropWhile.simps(1) rev.simps(1))
  have l: "last (strip s) = hd ?e"
    using e by (simp add: strip_def last_rev del: dropWhile_eq_Nil_conv)
  have "\<not> isspace (hd ?e)" using e by (simp add: hd_dropWhile del: dropWhile_eq_Nil_conv)
  with l have 1: "\<not> isspace (last (strip s))" by simp
  have nd: "\<not> isspace (hd ?d)" using d by (simp add: hd_dropWhile del: dropWhile_eq_Nil_conv)
  have "?d = strip s @ rev (takeWhile isspace (rev ?d))"
    using takeWhile_dropWhile_id[of isspace "rev ?d"]
    by (metis rev_append rev_rev_ident strip_def)
  with n have "hd ?d = hd (strip s)" by (metis hd_append2)
  with nd 1 show ?thesis by simp
qed

section \<open>What the setters leave\<close>


lemma print_frame:
  "state_data (snd (print text w)) = state_data w"
  "stdout_encodes (snd (print text w)) = stdout_encodes w"
  "created (snd (print text w)) = created w"
  "tool_module (snd (print text w)) = tool_module w"
  by (simp_all add: print_def)



lemma set_org_name_frame:
  "state_data (snd (set_org_name v w)) = (state_data w)(''org_name'' \<mapsto> Str v)"
  "stdout_encodes (snd (set_org_name v w)) = stdout_encodes w"
  "created (snd (set_org_name v w)) = created w"
  "tool_module (snd (set_org_name v w)) = tool_module w"
  by (simp_all add: set_org_name_def print_frame)

lemma set_base_url_frame:
  "state_data (snd (set_base_url v w)) = (state_data w)(''base_url'' \<mapsto> Str v)"
  "stdout_encodes (snd (set_base_url v w)) = stdout_encodes w"
  "created (snd (set_base_url v w)) = created w"
  "tool_module (snd (set_base_url v w)) = tool_module w"
  by (simp_all add: set_base_url_def print_frame)

lemma set_swagger_json_frame:
  "state_data (snd (set_swagger_json v w)) = (state_data w)(''swagger_json'' \<mapsto> Str v)"
  "stdout_encodes (snd (set_swagger_json v w)) = stdout_encodes w"
  "created (snd (set_swagger_json v w)) = created w"
  "tool_module (snd (set_swagger_json v w)) = tool_module w"
  by (simp_all add: set_swagger_json_def print_frame)




section \<open>What \<open>validate_state\<close> and \<open>create_agent\<close> compute\<close>

lemma is_valid_iff:
  "is_valid w \<longleftrightarrow>
     field_nonempty_after_trim (state_data w ''org_name'') \<and>
     field_nonempty_after_trim (state_data w ''base_url'') \<and>
     field_nonempty_after_trim (state_data w ''swagger_json'')"
  by (simp add: is_valid_def field_nonempty_after_trim_def strip_nonempty_iff
      split: option.splits pyval.splits)

lemma create_agent_Some:
  "state_data w ''org_name'' = Some v \<Longrightarrow>
   create_agent w =
     (Inr (Agent (created w) v),
      w\<lparr>state_data := (state_data w)(''agent'' \<mapsto> Agent (created w) v),
        created := Suc (created w)\<rparr>)"
  by (simp add: create_agent_def AgentGenerator_def)

lemma is_valid_org: "is_valid w \<Longrightarrow> \<exists>s. state_data w ''org_name'' = Some (Str s)"
  by (auto simp add: is_valid_def split: option.splits pyval.splits)

lemma validate_state_valid:
  "is_valid w \<Longrightarrow>
   \<exists>s. state_data w ''org_name'' = Some (Str s) \<and>
     validate_state w =
       (Inr True,
        w\<lparr>state_data := (state_data w)(''agent'' \<mapsto> Agent (created w) (Str s)),
          created := Suc (created w)\<rparr>)"
  using is_valid_org[of w] by (auto simp add: validate_state_def create_agent_Some)

lemma validate_state_invalid: "\<not> is_valid w \<Longrightarrow> validate_state w = (Inr False, w)"
  by (simp add: validate_state_def)

lemma validate_state_True_iff: "fst (validate_state w) = Inr True \<longleftrightarrow> is_valid w"
  using validate_state_valid[of w] validate_state_invalid[of w] by (cases "is_valid w") auto

lemma validate_state_False_iff: "fst (validate_state w) = Inr False \<longleftrightarrow> \<not> is_valid w"
  using validate_state_valid[of w] validate_state_invalid[of w] by (cases "is_valid w") auto

lemma validate_state_tool_module: "tool_module (snd (validate_state w)) = tool_module w"
  using validate_state_valid[of w] validate_state_invalid[of w] by (cases "is_valid w") auto

text \<open>
  No agent is bound when the module is loaded, and only \<open>create_agent\<close>, called
  directly or by a validation that succeeds, binds one: the setters, a failed validation
  and \<open>write_code_to_tool\<close> leave the entry unbound.
\<close>

lemma initial_world_agent: "state_data initial_world ''agent'' = None"
  by (simp add: initial_world_def initial_state_data_def)

lemma agent_unbound_preserved:
  assumes "state_data w ''agent'' = None"
  shows "state_data (snd (set_org_name v w)) ''agent'' = None"
    and "state_data (snd (set_base_url v w)) ''agent'' = None"
    and "state_data (snd (set_swagger_json v w)) ''agent'' = None"
    and "\<not> is_valid w \<Longrightarrow> state_data (snd (validate_state w)) ''agent'' = None"
    and "state_data (snd (write_code_to_tool code w)) ''agent'' = None"
  using assms
  by (simp_all add: set_org_name_frame set_base_url_frame set_swagger_json_frame
      validate_state_invalid write_code_to_tool_def)

lemma acme_world_valid: "is_valid acme_world"
  by (simp add: acme_world_def is_valid_def set_org_name_frame set_base_url_frame
      set_swagger_json_frame strip_def isspace_def whitespace_def ascii_def)

lemma no_swagger_world_invalid: "\<not> is_valid no_swagger_world"
  by (simp add: no_swagger_world_def is_valid_def set_org_name_frame set_base_url_frame
      initial_world_def initial_state_data_def strip_def)

lemma org_only_world_invalid: "\<not> is_valid org_only_world"
  by (simp add: org_only_world_def is_valid_def set_org_name_frame initial_world_def
      initial_state_data_def strip_def)

lemma acme_world_org: "state_data acme_world ''org_name'' = Some (Str (ascii ''Acme''))"
  by (simp add: acme_world_def set_org_name_frame set_base_url_frame
      set_swagger_json_frame)

lemma org_only_world_org:
  "state_data org_only_world ''org_name'' = Some (Str (ascii ''Acme''))"
  by (simp add: org_only_world_def set_org_name_frame)

lemma acme_world_agent: "state_data acme_world ''agent'' = None"
  by (simp add: acme_world_def set_org_name_frame set_base_url_frame
      set_swagger_json_frame initial_world_def initial_state_data_def)

lemma acme_world_created: "created acme_world = 0"
  by (simp add: acme_world_def set_org_name_frame set_base_url_frame
      set_swagger_json_frame initial_world_def)

lemma org_only_world_created: "created org_only_world = 0"
  by (simp add: org_only_world_def set_org_name_frame initial_world_def)

lemma pending_not_completed: "ascii ''PENDING'' \<noteq> ascii ''COMPLETED''"
  by (simp add: ascii_def)

section \<open>The claims\<close>

text \<open>
  Claim C1. For every state, \<open>validate_state\<close> returns, and what it returns is true if
  and only if each of \<open>org_name\<close>, \<open>base_url\<close> and \<open>swagger_json\<close> is a string that is
  not empty after trimming leading and trailing whitespace: false when a field is
  missing, no string, empty or whitespace only, true when all three have a character
  that is no whitespace.
\<close>

theorem validate_state_result:
  "fst (validate_state w) =
     Inr (field_nonempty_after_trim (state_data w ''org_name'') \<and>
          field_nonempty_after_trim (state_data w ''base_url'') \<and>
          field_nonempty_after_trim (state_data w ''swagger_json''))"
proof (cases "is_valid w")
  case True
  then show ?thesis using validate_state_valid[of w] is_valid_iff[of w] by auto
next
  case False
  then show ?thesis using validate_state_invalid[of w] is_valid_iff[of w] by auto
qed

text \<open>
  Claim C2 says that \<open>validate_state\<close> leaves the shared state exactly as it was,
  whether validation succeeds or not. It does not when validation succeeds: with the
  three fields set and no agent bound, the call returns true and has bound a new
  \<open>AgentGenerator\<close> under \<open>agent\<close>.
\<close>

theorem validate_state_binds_agent_counterexample:
  "fst (validate_state acme_world) = Inr True \<and>
   state_data acme_world ''agent'' = None \<and>
   state_data (snd (validate_state acme_world)) ''agent'' =
     Some (Agent 0 (Str (ascii ''Acme''))) \<and>
   snd (validate_state acme_world) \<noteq> acme_world"
proof -
  have v: "validate_state acme_world =
     (Inr True,
      acme_world\<lparr>state_data :=
          (state_data acme_world)(''agent'' \<mapsto> Agent 0 (Str (ascii ''Acme''))),
        created := Suc 0\<rparr>)"
    using validate_state_valid[OF acme_world_valid] acme_world_org acme_world_created
    by simp
  have "created (snd (validate_state acme_world)) \<noteq> created acme_world"
    by (simp add: v acme_world_created)
  then have "snd (validate_state acme_world) \<noteq> acme_world" by metis
  then show ?thesis by (simp add: v acme_world_agent)
qed

text \<open>
  Claim C2, as amended. \<open>validate_state\<close> never changes \<open>org_name\<close>, \<open>base_url\<close>,
  \<open>swagger_json\<close> or any entry of the shared state other than \<open>agent\<close>, nor the output
  and the generated tool module. When validation fails it leaves the whole state as it
  was. When validation succeeds it has called \<open>create_agent\<close>: a new \<open>AgentGenerator\<close>
  made from \<open>org_name\<close> is bound under \<open>agent\<close>, and nothing else differs.
\<close>

theorem validate_state_effect:
  "(if is_valid w
    then \<exists>s. state_data w ''org_name'' = Some (Str s) \<and>
           validate_state w =
             (Inr True,
              w\<lparr>state_data := (state_data w)(''agent'' \<mapsto> Agent (created w) (Str s)),
                created := Suc (created w)\<rparr>)
    else validate_state w = (Inr False, w)) \<and>
   state_data (snd (validate_state w)) |` (- {''agent''}) =
     state_data w |` (- {''agent''}) \<and>
   stdout (snd (validate_state w)) = stdout w \<and>
   tool_module (snd (validate_state w)) = tool_module w"
proof (cases "is_valid w")
  case True
  from validate_state_valid[OF True] obtain s where
    "state_data w ''org_name'' = Some (Str s)"
    "validate_state w =
       (Inr True,
        w\<lparr>state_data := (state_data w)(''agent'' \<mapsto> Agent (created w) (Str s)),
          created := Suc (created w)\<rparr>)"
    by blast
  with True show ?thesis by auto
next
  case False
  then show ?thesis by (simp add: validate_state_invalid)
qed

text \<open>
  Claim C3. For every code string, the empty one included, \<open>write_code_to_tool\<close>
  called while no agent is bound in the shared state fails with the error of a missing
  handle, which in the source is the \<open>KeyError\<close> of \<open>state_data["agent"]\<close>. The error
  is the result of the call, so it reaches the caller, and the state is as it was.
\<close>

theorem write_code_to_tool_without_agent:
  "state_data w ''agent'' = None \<Longrightarrow>
   write_code_to_tool code w = (Inl (KeyError ''agent''), w)"
  by (simp add: write_code_to_tool_def)

theorem write_code_to_tool_without_agent_witness:
  "state_data initial_world ''agent'' = None \<and>
   write_code_to_tool [] initial_world = (Inl (KeyError ''agent''), initial_world)"
proof -
  have h: "state_data initial_world ''agent'' = None"
    by (simp add: initial_world_def initial_state_data_def)
  show ?thesis using h write_code_to_tool_without_agent[OF h, of "[]"] by simp
qed

text \<open>
  Claim C4 says that \<open>create_agent\<close> fails whenever the configuration is invalid. It
  does not: with \<open>org_name\<close> set and the other two fields empty the configuration is
  invalid and \<open>create_agent\<close> returns an agent.
\<close>

theorem create_agent_invalid_counterexample:
  "\<not> is_valid org_only_world \<and>
   fst (create_agent org_only_world) = Inr (Agent 0 (Str (ascii ''Acme'')))"
  by (simp add: org_only_world_invalid create_agent_Some[OF org_only_world_org]
      org_only_world_created)

text \<open>
  Claim C4, as amended. \<open>create_agent\<close> does not check the configuration. It fails,
  with a \<open>KeyError\<close> and the state as it was, when the shared state has no \<open>org_name\<close>
  entry. Whether it fails otherwise depends on the \<open>org_name\<close> entry alone, not on
  \<open>base_url\<close>, \<open>swagger_json\<close> or the validity of the configuration: in every state
  whose \<open>org_name\<close> entry is one with which \<open>validate_state\<close> returns true,
  \<open>create_agent\<close> returns an agent and binds it under \<open>agent\<close>, also when the
  configuration of that state is invalid.
\<close>

theorem create_agent_ignores_validity:
  "(state_data w ''org_name'' = None \<longrightarrow>
      create_agent w = (Inl (KeyError ''org_name''), w)) \<and>
   (state_data w' ''org_name'' = state_data w ''org_name'' \<longrightarrow>
      isl (fst (create_agent w')) = isl (fst (create_agent w))) \<and>
   (fst (validate_state w) = Inr True \<and>
    state_data w' ''org_name'' = state_data w ''org_name'' \<longrightarrow>
      (\<exists>i a. fst (create_agent w') = Inr (Agent i a) \<and>
         state_data (snd (create_agent w')) ''agent'' = Some (Agent i a)))"
proof (intro conjI impI)
  assume "state_data w ''org_name'' = None"
  then show "create_agent w = (Inl (KeyError ''org_name''), w)"
    by (simp add: create_agent_def)
next
  assume "state_data w' ''org_name'' = state_data w ''org_name''"
  then show "isl (fst (create_agent w')) = isl (fst (create_agent w))"
    by (cases "state_data w ''org_name''") (simp_all add: create_agent_def AgentGenerator_def)
next
  assume a: "fst (validate_state w) = Inr True \<and>
    state_data w' ''org_name'' = state_data w ''org_name''"
  then have "is_valid w"
    by (simp add: validate_state_True_iff)
  then obtain s where "state_data w ''org_name'' = Some (Str s)"
    using is_valid_org by blast
  with a have "state_data w' ''org_name'' = Some (Str s)"
    by simp
  then show "\<exists>i a. fst (create_agent w') = Inr (Agent i a) \<and>
      state_data (snd (create_agent w')) ''agent'' = Some (Agent i a)"
    by (simp add: create_agent_Some)
qed

theorem create_agent_ignores_validity_witness:
  "state_data no_org_world ''org_name'' = None \<and>
   create_agent no_org_world = (Inl (KeyError ''org_name''), no_org_world) \<and>
   fst (validate_state acme_world) = Inr True \<and>
   state_data org_only_world ''org_name'' = state_data acme_world ''org_name'' \<and>
   \<not> is_valid org_only_world \<and>
   isl (fst (create_agent org_only_world)) = isl (fst (create_agent acme_world)) \<and>
   (\<exists>i a. fst (create_agent org_only_world) = Inr (Agent i a) \<and>
      state_data (snd (create_agent org_only_world)) ''agent'' = Some (Agent i a))"
proof -
  have n: "state_data no_org_world ''org_name'' = None"
    by (simp add: no_org_world_def)
  have v: "fst (validate_state acme_world) = Inr True"
    by (simp add: validate_state_True_iff acme_world_valid)
  have o: "state_data org_only_world ''org_name'' = state_data acme_world ''org_name''"
    by (simp add: org_only_world_org acme_world_org)
  show ?thesis
    using n v o org_only_world_invalid
      create_agent_ignores_validity[of no_org_world org_only_world]
      create_agent_ignores_validity[of acme_world org_only_world]
    by simp
qed

text \<open>
  Claim C5. Whenever \<open>validate_state\<close> returns false, the call has left the whole
  shared state as it was: no \<open>AgentGenerator\<close> was created (every call of
  \<open>create_agent\<close> that returns counts one more), the \<open>agent\<close> entry is what it was, and
  the generated tool module is unchanged.
\<close>

theorem validate_state_false_no_effect:
  "fst (validate_state w) = Inr False \<Longrightarrow>
   snd (validate_state w) = w \<and>
   created (snd (validate_state w)) = created w \<and>
   state_data (snd (validate_state w)) ''agent'' = state_data w ''agent'' \<and>
   tool_module (snd (validate_state w)) = tool_module w"
proof -
  assume "fst (validate_state w) = Inr False"
  then have "\<not> is_valid w"
    by (simp add: validate_state_False_iff)
  then show ?thesis by (simp add: validate_state_invalid)
qed

theorem validate_state_false_no_effect_witness:
  "fst (validate_state no_swagger_world) = Inr False \<and>
   snd (validate_state no_swagger_world) = no_swagger_world \<and>
   created (snd (validate_state no_swagger_world)) = 0 \<and>
   state_data (snd (validate_state no_swagger_world)) ''agent'' = None \<and>
   tool_module (snd (validate_state no_swagger_world)) = []"
proof -
  have h: "fst (validate_state no_swagger_world) = Inr False"
    by (simp add: validate_state_invalid[OF no_swagger_world_invalid])
  have "created no_swagger_world = 0" "state_data no_swagger_world ''agent'' = None"
    "tool_module no_swagger_world = []"
    by (simp_all add: no_swagger_world_def set_org_name_frame set_base_url_frame
        initial_world_def initial_state_data_def)
  with h validate_state_false_no_effect[OF h] show ?thesis by simp
qed

text \<open>
  Claim C6. Calling \<open>validate_state\<close> twice in succession, with nothing in between,
  leaves the generated tool module after the second call as it was after the first,
  which is as it was before both: no fragment, and so no manifest entry, is appended
  twice, since \<open>validate_state\<close> appends none.
\<close>

theorem validate_state_twice_module:
  "tool_module (snd (validate_state (snd (validate_state w)))) =
     tool_module (snd (validate_state w)) \<and>
   tool_module (snd (validate_state w)) = tool_module w"
  by (simp add: validate_state_tool_module)

text \<open>
  Claim C7. For every request, identifier generated and time read,
  \<open>initiate_payment\<close> returns a response with that identifier, status \<open>PENDING\<close> and
  the time as \<open>created_at\<close>, and stores the payment under the identifier with status
  \<open>PENDING\<close>; \<open>get_payment_status\<close> for that identifier then returns status \<open>PENDING\<close>
  and no \<open>processed_at\<close>, with the amount, currency and reference of the request.
\<close>

theorem initiate_then_status_pending:
  "initiate_payment request uuid4 utcnow payments_store =
     (Inr \<lparr>PaymentInitiationResponse.payment_id = uuid4, status = ascii ''PENDING'',
           created_at = utcnow\<rparr>,
      payments_store(uuid4 \<mapsto>
        \<lparr>payment.status = ascii ''PENDING'',
         amount = PaymentInitiationRequest.amount request,
         currency = PaymentInitiationRequest.currency request,
         reference = PaymentInitiationRequest.reference request,
         created_at = utcnow\<rparr>)) \<and>
   get_payment_status uuid4 utcnow'
       (snd (initiate_payment request uuid4 utcnow payments_store)) =
     (Inr \<lparr>PaymentStatusResponse.payment_id = uuid4, status = ascii ''PENDING'',
           processed_at = None,
           amount = PaymentInitiationRequest.amount request,
           currency = PaymentInitiationRequest.currency request,
           reference = PaymentInitiationRequest.reference request\<rparr>,
      snd (initiate_payment request uuid4 utcnow payments_store))"
  by (simp add: initiate_payment_def get_payment_status_def pending_not_completed)

text \<open>
  Claim C8. For every identifier that is no key of the payment store,
  \<open>get_payment_status\<close> fails with the HTTP error 404 and leaves the store as it was.
\<close>

theorem get_payment_status_unknown:
  "payments_store pid = None \<Longrightarrow>
   get_payment_status pid utcnow payments_store =
     (Inl (HTTPException 404 ''Payment not found''), payments_store)"
  by (simp add: get_payment_status_def)

theorem get_payment_status_unknown_witness:
  "(Map.empty :: int payments_store) (ascii ''no-such-id'') = None \<and>
   get_payment_status (ascii ''no-such-id'') (ascii ''2026-01-01T00:00:00'')
       (Map.empty :: int payments_store) =
     (Inl (HTTPException 404 ''Payment not found''), Map.empty)"
  using get_payment_status_unknown
    [of "Map.empty :: int payments_store" "ascii ''no-such-id''"
      "ascii ''2026-01-01T00:00:00''"]
  by simp




text \<open>
  Claim C10. Whenever \<open>validate_state\<close> returns true, an \<open>AgentGenerator\<close> is bound
  under \<open>agent\<close> in the state it leaves, so \<open>write_code_to_tool\<close> called in that state
  reaches the agent's \<open>write_to_tool\<close> and does not fail with the \<open>KeyError\<close> of a
  missing handle.
\<close>

theorem validate_state_true_agent_bound:
  "fst (validate_state w) = Inr True \<Longrightarrow>
   \<exists>i a. state_data (snd (validate_state w)) ''agent'' = Some (Agent i a) \<and>
     write_code_to_tool code (snd (validate_state w)) =
       write_to_tool (Agent i a) code (snd (validate_state w)) \<and>
     fst (write_code_to_tool code (snd (validate_state w))) \<noteq> Inl (KeyError ''agent'')"
proof -
  assume "fst (validate_state w) = Inr True"
  then have "is_valid w"
    by (simp add: validate_state_True_iff)
  from validate_state_valid[OF this] obtain s where
    "validate_state w =
       (Inr True,
        w\<lparr>state_data := (state_data w)(''agent'' \<mapsto> Agent (created w) (Str s)),
          created := Suc (created w)\<rparr>)"
    by blast
  then show ?thesis
    by (simp add: write_code_to_tool_def write_to_tool_def)
qed

theorem validate_state_true_agent_bound_witness:
  "fst (validate_state acme_world) = Inr True \<and>
   (\<exists>i a. state_data (snd (validate_state acme_world)) ''agent'' = Some (Agent i a) \<and>
     write_code_to_tool [] (snd (validate_state acme_world)) =
       write_to_tool (Agent i a) [] (snd (validate_state acme_world)) \<and>
     fst (write_code_to_tool [] (snd (validate_state acme_world))) \<noteq>
       Inl (KeyError ''agent''))"
proof -
  have h: "fst (validate_state acme_world) = Inr True"
    using validate_state_valid[OF acme_world_valid] by auto
  show ?thesis using h validate_state_true_agent_bound[OF h, of "[]"] by simp
qed

end
